theory Spec2Isabelle
  imports Complex_Main "HOL-Library.Sublist"
begin

section \<open>The skills manager of the portfolio site (\<open>assets/js/skills-manager.js\<close>)\<close>

text \<open>
  The class \<open>SkillsManager\<close> loads a skills document, renders it into the page, computes
  aggregate statistics, updates one record's level and keeps a copy in the browser's local
  storage. The embedding is shallow: every method is a HOL function on an explicit state
  (the manager's fields and the parts of the browser it touches). A method that can end by
  \<open>throw\<close> returns \<open>error + result\<close>, with \<open>Inl\<close> the thrown value.

  Modelling decisions, each from the source or from ECMAScript:
  \<^item> The skills document has the shape of the literal in \<open>getFallbackSkillsData\<close>:
    \<open>{ skills: { category: [ {name, level, icon, years?, description?} ] } }\<close>.
    \<open>this.skillsData\<close> is either \<open>null\<close> (\<open>None\<close>) or such a document.
  \<^item> Numbers are integers that a JavaScript number holds exactly, small enough for every
    sum to be exact (totals below \<open>2^52\<close> in absolute value will do; there \<open>Math.round\<close> of
    the floating-point quotient is the rounding of the exact quotient, and a number prints
    in decimal). The one quotient of the program, inside \<open>Math.round\<close>, is taken in the
    rationals.
  \<^item> A JavaScript string is a \<open>string\<close>; a character outside ASCII is written as its
    UTF-8 bytes. The program only concatenates and compares strings.
  \<^item> An object is an association list of its own properties in insertion order. Reading
    \<open>obj[key]\<close> follows the prototype chain, so the property names of
    \<open>Object.prototype\<close> are found on every object.
\<close>

subsection \<open>Data model\<close>

record skill =
  name :: string
  level :: int
  icon :: string
  years :: "int option"
  description :: "string option"

record dataset =
  skills :: "(string \<times> skill list) list"

datatype error =
    Error string
  | TypeError string
  | SyntaxError string
  | DOMException string

subsection \<open>JavaScript primitives the methods use\<close>

text \<open>\<open>String(n)\<close> for an integer \<open>n\<close>, as a template literal prints it.\<close>

definition digit_char :: "nat \<Rightarrow> char" where
  "digit_char d = ''0123456789'' ! d"

fun digits :: "nat \<Rightarrow> string" where
  "digits n =
     (if n < 10 then [digit_char n]
      else digits (n div 10) @ [digit_char (n mod 10)])"

declare digits.simps [simp del]

definition Number_toString :: "int \<Rightarrow> string" where
  "Number_toString i = (if i < 0 then CHR ''-'' # digits (nat (- i)) else digits (nat i))"

text \<open>Truthiness of an optional number and of an optional string: \<open>undefined\<close>, \<open>0\<close>
  and the empty string are falsy.\<close>

fun truthy_number :: "int option \<Rightarrow> bool" where
  "truthy_number None = False"
| "truthy_number (Some n) = (n \<noteq> 0)"

fun truthy_string :: "string option \<Rightarrow> bool" where
  "truthy_string None = False"
| "truthy_string (Some s) = (s \<noteq> [])"

text \<open>\<open>Math.round\<close>: the nearest integer, a tie going up.\<close>

definition Math_round :: "rat \<Rightarrow> int" where
  "Math_round x = \<lfloor>x + 1 / 2\<rfloor>"

text \<open>
  Property read \<open>obj[key]\<close> on an object created by a literal or by \<open>JSON.parse\<close>: an own
  property first, then \<open>Object.prototype\<close>. What the prototype holds under the names
  below is a function (or, for \<open>__proto__\<close>, the prototype object itself): a truthy value
  with no \<open>find\<close> and no \<open>map\<close> property.
\<close>

datatype 'a property = Own 'a | Inherited string | Undefined

definition Object_prototype_keys :: "string list" where
  "Object_prototype_keys =
     [''constructor'', ''hasOwnProperty'', ''isPrototypeOf'', ''propertyIsEnumerable'',
      ''toLocaleString'', ''toString'', ''valueOf'', ''__proto__'',
      ''__defineGetter__'', ''__defineSetter__'', ''__lookupGetter__'', ''__lookupSetter__'']"

definition get_property :: "(string \<times> 'a) list \<Rightarrow> string \<Rightarrow> 'a property" where
  "get_property obj k =
     (case map_of obj k of
        Some v \<Rightarrow> Own v
      | None \<Rightarrow> if k \<in> set Object_prototype_keys then Inherited k else Undefined)"

text \<open>\<open>Object.values\<close>: the values of the own properties, in order.\<close>

definition Object_values :: "(string \<times> 'a) list \<Rightarrow> 'a list" where
  "Object_values obj = map snd obj"

text \<open>\<open>Array.prototype.forEach\<close> with a callback that may throw.\<close>

fun forEach :: "('a \<Rightarrow> 's \<Rightarrow> error + 's) \<Rightarrow> 'a list \<Rightarrow> 's \<Rightarrow> error + 's" where
  "forEach f [] s = Inr s"
| "forEach f (x # xs) s = (case f x s of Inl e \<Rightarrow> Inl e | Inr s' \<Rightarrow> forEach f xs s')"

subsection \<open>The browser: local storage, the document, the console\<close>

text \<open>
  A string held by the store or sent as a response body, up to what \<open>JSON.parse\<close> tells
  apart: \<open>Stringified d\<close> is the text \<open>JSON.stringify(d)\<close>, which \<open>JSON.parse\<close> turns back
  into \<open>d\<close> (ECMAScript's round trip for \<open>null\<close>, objects, arrays, strings and integers);
  \<open>Malformed s\<close> is a string \<open>s\<close> that is no JSON text, on which \<open>JSON.parse\<close> throws a
  \<open>SyntaxError\<close>. The empty string is \<open>Malformed []\<close>.
\<close>

datatype json_text = Stringified "dataset option" | Malformed string

definition JSON_stringify :: "dataset option \<Rightarrow> json_text" where
  "JSON_stringify d = Stringified d"

fun JSON_parse :: "json_text \<Rightarrow> error + dataset option" where
  "JSON_parse (Stringified d) = Inr d"
| "JSON_parse (Malformed s) = Inl (SyntaxError s)"

fun truthy_text :: "json_text option \<Rightarrow> bool" where
  "truthy_text None = False"
| "truthy_text (Some (Stringified d)) = True"
| "truthy_text (Some (Malformed s)) = (s \<noteq> [])"

text \<open>
  \<open>window.localStorage\<close>. \<open>denied\<close>: the browser refuses access to storage, every use
  throws a \<open>SecurityError\<close>. \<open>full\<close>: the quota is used up, \<open>setItem\<close> throws a
  \<open>QuotaExceededError\<close>. These are the failures the \<open>try\<close> blocks of
  \<open>saveToLocalStorage\<close> and \<open>loadFromLocalStorage\<close> catch.
\<close>

record storage =
  items :: "string \<rightharpoonup> json_text"
  denied :: bool
  full :: bool

definition getItem :: "storage \<Rightarrow> string \<Rightarrow> error + json_text option" where
  "getItem sto k = (if denied sto then Inl (DOMException ''SecurityError'') else Inr (items sto k))"

definition setItem :: "storage \<Rightarrow> string \<Rightarrow> json_text \<Rightarrow> error + storage" where
  "setItem sto k v =
     (if denied sto then Inl (DOMException ''SecurityError'')
      else if full sto then Inl (DOMException ''QuotaExceededError'')
      else Inr (sto\<lparr>items := (items sto)(k \<mapsto> v)\<rparr>))"

text \<open>A console line: the method (\<open>warn\<close> or \<open>error\<close>), the message, and the value logged
  after it (a thrown error or a string).\<close>

datatype logged = Thrown error | Text string

datatype console_line = Warn string logged | Err string logged

text \<open>A count-up animation registered by \<open>animateValue\<close> with
  \<open>window.requestAnimationFrame\<close>: element id, start, end, duration, suffix.\<close>

type_synonym animation = "string \<times> int \<times> int \<times> int \<times> string"

text \<open>
  The state: the manager's two fields, and of the browser the document (element id to its
  \<open>innerHTML\<close> or \<open>textContent\<close>; an id that is absent has no element), the local
  storage, the console and the registered animations.
\<close>

record state =
  skillsData :: "dataset option"
  initialized :: bool
  document :: "string \<rightharpoonup> string"
  localStorage :: storage
  console :: "console_line list"
  frames :: "animation list"

subsection \<open>Loading\<close>

text \<open>What \<open>fetch('data/skills.json')\<close> settles to: a rejection, or a response with a
  status and a body. \<open>response.ok\<close> is a status from 200 to 299.\<close>

datatype fetch_outcome = Rejected error | Response nat json_text

definition response_ok :: "nat \<Rightarrow> bool" where
  "response_ok status = (200 \<le> status \<and> status \<le> 299)"

definition getFallbackSkillsData :: dataset where
  "getFallbackSkillsData = \<lparr>skills =
     [(''frontend'',
        [\<lparr>name = ''HTML5'', level = 95, icon = [CHR 0xF0, CHR 0x9F, CHR 0x94, CHR 0xA7],
            years = Some 5, description = None\<rparr>,
         \<lparr>name = ''CSS3'', level = 90, icon = [CHR 0xF0, CHR 0x9F, CHR 0x8E, CHR 0xA8],
            years = Some 5, description = None\<rparr>,
         \<lparr>name = ''JavaScript'', level = 92, icon = [CHR 0xE2, CHR 0x9A, CHR 0xA1],
            years = Some 4, description = None\<rparr>]),
      (''backend'',
        [\<lparr>name = ''Node.js'', level = 88, icon = [CHR 0xF0, CHR 0x9F, CHR 0x9F, CHR 0xA2],
            years = Some 3, description = None\<rparr>,
         \<lparr>name = ''Python'', level = 85, icon = [CHR 0xF0, CHR 0x9F, CHR 0x90, CHR 0x8D],
            years = Some 4, description = None\<rparr>,
         \<lparr>name = ''MongoDB'', level = 80, icon = [CHR 0xF0, CHR 0x9F, CHR 0x8D, CHR 0x83],
            years = Some 3, description = None\<rparr>]),
      (''tools'',
        [\<lparr>name = ''Git'', level = 90, icon = [CHR 0xF0, CHR 0x9F, CHR 0x93, CHR 0x9D],
            years = Some 4, description = None\<rparr>,
         \<lparr>name = ''Docker'', level = 75, icon = [CHR 0xF0, CHR 0x9F, CHR 0x90, CHR 0xB3],
            years = Some 2, description = None\<rparr>,
         \<lparr>name = ''AWS'', level = 70,
            icon = [CHR 0xE2, CHR 0x98, CHR 0x81, CHR 0xEF, CHR 0xB8, CHR 0x8F],
            years = Some 2, description = None\<rparr>]),
      (''softSkills'',
        [\<lparr>name = ''Problem Solving'', level = 95,
            icon = [CHR 0xF0, CHR 0x9F, CHR 0xA7, CHR 0xA9], years = None, description = None\<rparr>,
         \<lparr>name = ''Team Collaboration'', level = 90,
            icon = [CHR 0xF0, CHR 0x9F, CHR 0x91, CHR 0xA5], years = None, description = None\<rparr>,
         \<lparr>name = ''Communication'', level = 88,
            icon = [CHR 0xF0, CHR 0x9F, CHR 0x92, CHR 0xAC], years = None, description = None\<rparr>])]\<rparr>"

text \<open>The \<open>try\<close> block of \<open>loadSkillsData\<close>.\<close>

definition loadSkillsData_try :: "state \<Rightarrow> fetch_outcome \<Rightarrow> error + state" where
  "loadSkillsData_try st out =
     (case out of
        Rejected e \<Rightarrow> Inl e
      | Response status body \<Rightarrow>
          if \<not> response_ok status then Inl (Error (''HTTP '' @ Number_toString (int status)))
          else (case JSON_parse body of
                  Inl e \<Rightarrow> Inl e
                | Inr d \<Rightarrow> Inr (st\<lparr>skillsData := d\<rparr>)))"

definition loadSkillsData :: "state \<Rightarrow> fetch_outcome \<Rightarrow> error + state" where
  "loadSkillsData st out =
     (case loadSkillsData_try st out of
        Inr st' \<Rightarrow> Inr st'
      | Inl e \<Rightarrow>
          Inr (st\<lparr>console := console st @ [Warn ''Using fallback skills data:'' (Thrown e)],
                  skillsData := Some getFallbackSkillsData\<rparr>))"

subsection \<open>Rendering\<close>

definition getProficiencyClass :: "int \<Rightarrow> string" where
  "getProficiencyClass lv =
     (if lv \<ge> 90 then ''skill--expert''
      else if lv \<ge> 75 then ''skill--advanced''
      else if lv \<ge> 60 then ''skill--intermediate''
      else ''skill--beginner'')"

definition getProficiencyLabel :: "int \<Rightarrow> string" where
  "getProficiencyLabel lv =
     (if lv \<ge> 90 then ''Expert''
      else if lv \<ge> 75 then ''Advanced''
      else if lv \<ge> 60 then ''Intermediate''
      else ''Beginner'')"

text \<open>The two conditional pieces of the template of \<open>createSkillElement\<close>.\<close>

definition years_span :: "skill \<Rightarrow> string" where
  \<open>years_span s =
     (if truthy_number (years s) then
        ''<span class="skill__years">'' @ Number_toString (the (years s)) @ '' '' @
        (if the (years s) = 1 then ''year'' else ''years'') @ ''</span>''
      else [])\<close>

definition description_p :: "skill \<Rightarrow> string" where
  \<open>description_p s =
     (if truthy_string (description s) then
        ''<p class="skill__description">'' @ the (description s) @ ''</p>''
      else [])\<close>

definition createSkillElement :: "skill \<Rightarrow> string" where
  \<open>createSkillElement s =
     ''\<newline>'' @
     ''            <div class="skill '' @ getProficiencyClass (level s) @
     ''" data-skill-level="'' @ Number_toString (level s) @ ''">\<newline>'' @
     ''                <div class="skill__header">\<newline>'' @
     ''                    <span class="skill__icon">'' @ icon s @ ''</span>\<newline>'' @
     ''                    <div class="skill__info">\<newline>'' @
     ''                        <div class="skill__name-wrapper">\<newline>'' @
     ''                            <span class="skill__name">'' @ name s @ ''</span>\<newline>'' @
     ''                            '' @ years_span s @ ''\<newline>'' @
     ''                        </div>\<newline>'' @
     ''                        <span class="skill__percentage">'' @ Number_toString (level s) @
     ''%</span>\<newline>'' @
     ''                    </div>\<newline>'' @
     ''                </div>\<newline>'' @
     ''                '' @ description_p s @ ''\<newline>'' @
     ''                <div class="skill__bar">\<newline>'' @
     ''                    <div class="skill__progress" data-progress="'' @
     Number_toString (level s) @ ''" style="width: 0%"></div>\<newline>'' @
     ''                </div>\<newline>'' @
     ''                <div class="skill__level-indicator">\<newline>'' @
     ''                    <span class="skill__level-label">'' @ getProficiencyLabel (level s) @
     ''</span>\<newline>'' @
     ''                </div>\<newline>'' @
     ''            </div>\<newline>'' @
     ''        ''\<close>

definition createSoftSkillBadge :: "skill \<Rightarrow> string" where
  \<open>createSoftSkillBadge s =
     ''\<newline>'' @
     ''            <div class="soft-skill-badge '' @ getProficiencyClass (level s) @
     ''" data-skill-level="'' @ Number_toString (level s) @ ''">\<newline>'' @
     ''                <span class="soft-skill-badge__icon">'' @ icon s @ ''</span>\<newline>'' @
     ''                <div class="soft-skill-badge__content">\<newline>'' @
     ''                    <span class="soft-skill-badge__name">'' @ name s @ ''</span>\<newline>'' @
     ''                    <div class="soft-skill-badge__progress">\<newline>'' @
     ''                        <div class="soft-skill-badge__progress-bar" style="width: 0%"></div>\<newline>'' @
     ''                    </div>\<newline>'' @
     ''                    <span class="soft-skill-badge__level">'' @ Number_toString (level s) @
     ''%</span>\<newline>'' @
     ''                </div>\<newline>'' @
     ''            </div>\<newline>'' @
     ''        ''\<close>

text \<open>\<open>container.innerHTML = ...\<close> and \<open>element.textContent = ...\<close> on an element that
  exists.\<close>

definition set_content :: "state \<Rightarrow> string \<Rightarrow> string \<Rightarrow> state" where
  "set_content st el html = st\<lparr>document := (document st)(el \<mapsto> html)\<rparr>"

text \<open>
  \<open>renderTechnicalSkills\<close> and \<open>renderSoftSkills\<close> receive what \<open>renderSkills\<close> read from
  \<open>this.skillsData.skills[category]\<close>, which passed the test \<open>if (!skills) return\<close>. An
  array has \<open>map\<close>; a value inherited from \<open>Object.prototype\<close> has not, and calling it
  throws.
\<close>

definition renderTechnicalSkills :: "state \<Rightarrow> string \<Rightarrow> skill list property \<Rightarrow> error + state" where
  "renderTechnicalSkills st category v =
     (let containerId = category @ ''-skills'' in
      case document st containerId of
        None \<Rightarrow> Inr st
      | Some old \<Rightarrow>
          (case v of
             Own xs \<Rightarrow> Inr (set_content st containerId (concat (map createSkillElement xs)))
           | _ \<Rightarrow> Inl (TypeError ''skills.map is not a function'')))"

definition renderSoftSkills :: "state \<Rightarrow> skill list property \<Rightarrow> error + state" where
  "renderSoftSkills st v =
     (let containerId = ''softskills-badges'' in
      case document st containerId of
        None \<Rightarrow> Inr st
      | Some old \<Rightarrow>
          (case v of
             Own xs \<Rightarrow> Inr (set_content st containerId (concat (map createSoftSkillBadge xs)))
           | _ \<Rightarrow> Inl (TypeError ''skills.map is not a function'')))"

definition renderSkills :: "state \<Rightarrow> error + state" where
  "renderSkills st =
     (case skillsData st of
        None \<Rightarrow> Inr st
      | Some d \<Rightarrow>
          forEach
            (\<lambda>category st.
               case get_property (skills d) category of
                 Undefined \<Rightarrow> Inr st
               | v \<Rightarrow>
                   if category = ''softSkills'' then renderSoftSkills st v
                   else renderTechnicalSkills st category v)
            [''frontend'', ''backend'', ''tools'', ''softSkills''] st)"

subsection \<open>Statistics\<close>

text \<open>The four counters of \<open>calculateAndDisplayStats\<close> and the body of its inner loop.\<close>

record counters =
  totalSkills :: int
  totalProficiency :: int
  totalYears :: int
  countedSkills :: int

definition count_skill :: "skill \<Rightarrow> counters \<Rightarrow> counters" where
  "count_skill s c =
     (let c = c\<lparr>totalSkills := totalSkills c + 1\<rparr>;
          c = c\<lparr>totalProficiency := totalProficiency c + level s\<rparr>;
          c = (if truthy_number (years s) then c\<lparr>totalYears := totalYears c + the (years s)\<rparr>
               else c)
      in c\<lparr>countedSkills := countedSkills c + 1\<rparr>)"

definition count_all :: "dataset \<Rightarrow> counters" where
  "count_all d =
     fold (\<lambda>category c. fold count_skill category c) (Object_values (skills d))
       \<lparr>totalSkills = 0, totalProficiency = 0, totalYears = 0, countedSkills = 0\<rparr>"

text \<open>\<open>animateValue\<close> only hands a callback to \<open>window.requestAnimationFrame\<close>; the callback
  runs in later frames.\<close>

definition animateValue :: "state \<Rightarrow> string \<Rightarrow> int \<Rightarrow> int \<Rightarrow> int \<Rightarrow> string \<Rightarrow> state" where
  "animateValue st el start end' duration sfx =
     st\<lparr>frames := frames st @ [(el, start, end', duration, sfx)]\<rparr>"

text \<open>The average that \<open>calculateAndDisplayStats\<close> shows: computed only under the guard
  \<open>countedSkills > 0\<close>.\<close>

definition average :: "counters \<Rightarrow> int option" where
  "average c =
     (if countedSkills c > 0
      then Some (Math_round (of_int (totalProficiency c) / of_int (countedSkills c)))
      else None)"

definition calculateAndDisplayStats :: "state \<Rightarrow> error + state" where
  "calculateAndDisplayStats st =
     (case skillsData st of
        None \<Rightarrow> Inr st
      | Some d \<Rightarrow>
          let c = count_all d;
              st = (case document st ''total-skills'' of
                      None \<Rightarrow> st
                    | Some old \<Rightarrow>
                        animateValue
                          (set_content st ''total-skills'' (Number_toString (totalSkills c)))
                          ''total-skills'' 0 (totalSkills c) 1000 []);
              st = (case (document st ''avg-proficiency'', average c) of
                      (Some old, Some avg) \<Rightarrow>
                        animateValue
                          (set_content st ''avg-proficiency'' (Number_toString avg @ ''%''))
                          ''avg-proficiency'' 0 avg 1000 ''%''
                    | _ \<Rightarrow> st);
              st = (case document st ''total-years'' of
                      None \<Rightarrow> st
                    | Some old \<Rightarrow>
                        animateValue
                          (set_content st ''total-years'' (Number_toString (totalYears c)))
                          ''total-years'' 0 (totalYears c) 1000 [])
          in Inr st)"

subsection \<open>Persistence\<close>

definition saveToLocalStorage :: "state \<Rightarrow> error + state" where
  "saveToLocalStorage st =
     (case setItem (localStorage st) ''portfolio-skills'' (JSON_stringify (skillsData st)) of
        Inr sto \<Rightarrow> Inr (st\<lparr>localStorage := sto\<rparr>)
      | Inl e \<Rightarrow>
          Inr (st\<lparr>console := console st @
                  [Warn ''Could not save skills to localStorage:'' (Thrown e)]\<rparr>))"

text \<open>The \<open>try\<close> block of \<open>loadFromLocalStorage\<close>: \<open>Inr None\<close> when it falls through to
  the \<open>return false\<close> after the block.\<close>

definition loadFromLocalStorage_try :: "state \<Rightarrow> error + state option" where
  "loadFromLocalStorage_try st =
     (case getItem (localStorage st) ''portfolio-skills'' of
        Inl e \<Rightarrow> Inl e
      | Inr saved \<Rightarrow>
          if truthy_text saved then
            (case JSON_parse (the saved) of
               Inl e \<Rightarrow> Inl e
             | Inr d \<Rightarrow> Inr (Some (st\<lparr>skillsData := d\<rparr>)))
          else Inr None)"

definition loadFromLocalStorage :: "state \<Rightarrow> error + state \<times> bool" where
  "loadFromLocalStorage st =
     (case loadFromLocalStorage_try st of
        Inr (Some st') \<Rightarrow> Inr (st', True)
      | Inr None \<Rightarrow> Inr (st, False)
      | Inl e \<Rightarrow>
          Inr (st\<lparr>console := console st @
                  [Warn ''Could not load skills from localStorage:'' (Thrown e)]\<rparr>, False))"

subsection \<open>Updating a level\<close>

text \<open>
  \<open>find(s => s.name === skillName)\<close> returns the first record with that name, and the
  assignment \<open>skill.level = ...\<close> changes that record where it stands in the array.
  \<open>assign_level\<close> is the two together: \<open>None\<close> when \<open>find\<close> returns \<open>undefined\<close>.
\<close>

fun assign_level :: "string \<Rightarrow> int \<Rightarrow> skill list \<Rightarrow> skill list option" where
  "assign_level skillName v [] = None"
| "assign_level skillName v (s # ss) =
     (if name s = skillName then Some (s\<lparr>level := v\<rparr> # ss)
      else map_option (\<lambda>ss'. s # ss') (assign_level skillName v ss))"

text \<open>The array stays the value of the own property it was read from.\<close>

fun put_property :: "string \<Rightarrow> 'a \<Rightarrow> (string \<times> 'a) list \<Rightarrow> (string \<times> 'a) list" where
  "put_property k v [] = []"
| "put_property k v ((k', v') # ps) =
     (if k' = k then (k, v) # ps else (k', v') # put_property k v ps)"

definition updateSkillLevel :: "state \<Rightarrow> string \<Rightarrow> string \<Rightarrow> int \<Rightarrow> error + state \<times> bool" where
  "updateSkillLevel st category skillName newLevel =
     (case skillsData st of
        None \<Rightarrow> Inr (st\<lparr>console := console st @ [Err ''Category not found:'' (Text category)]\<rparr>, False)
      | Some d \<Rightarrow>
          (case get_property (skills d) category of
             Undefined \<Rightarrow>
               Inr (st\<lparr>console := console st @ [Err ''Category not found:'' (Text category)]\<rparr>, False)
           | Inherited k \<Rightarrow>
               Inl (TypeError ''this.skillsData.skills[category].find is not a function'')
           | Own xs \<Rightarrow>
               (case assign_level skillName (min 100 (max 0 newLevel)) xs of
                  None \<Rightarrow>
                    Inr (st\<lparr>console := console st @ [Err ''Skill not found:'' (Text skillName)]\<rparr>,
                         False)
                | Some xs' \<Rightarrow>
                    let st = st\<lparr>skillsData := Some (d\<lparr>skills := put_property category xs' (skills d)\<rparr>)\<rparr>
                    in (case saveToLocalStorage st of
                          Inl e \<Rightarrow> Inl e
                        | Inr st \<Rightarrow>
                            (case renderSkills st of
                               Inl e \<Rightarrow> Inl e
                             | Inr st \<Rightarrow>
                                 (case calculateAndDisplayStats st of
                                    Inl e \<Rightarrow> Inl e
                                  | Inr st \<Rightarrow> Inr (st, True)))))))"

subsection \<open>Notions of the specification\<close>

text \<open>All records of a dataset, category after category.\<close>

definition records :: "dataset \<Rightarrow> skill list" where
  "records d = concat (Object_values (skills d))"

text \<open>A failed load, in the specification's words: a network error, a non-success status,
  or a body that does not parse.\<close>

definition fetch_failed :: "fetch_outcome \<Rightarrow> bool" where
  "fetch_failed out =
     (case out of
        Rejected e \<Rightarrow> True
      | Response status body \<Rightarrow> \<not> response_ok status \<or> isl (JSON_parse body))"

text \<open>The \<open>years\<close> of a record, a missing field counting as 0; the mean level of all records;
  and what it is for an integer to be nearest to a rational.\<close>

definition years_or_0 :: "skill \<Rightarrow> int" where
  "years_or_0 s = (case years s of None \<Rightarrow> 0 | Some y \<Rightarrow> y)"

definition mean_level :: "dataset \<Rightarrow> rat" where
  "mean_level d = of_int (sum_list (map level (records d))) / of_int (int (length (records d)))"

definition nearest_integer :: "rat \<Rightarrow> int \<Rightarrow> bool" where
  "nearest_integer x a = (\<bar>of_int a - x\<bar> \<le> 1 / 2)"

text \<open>The years label of the specification: ``1 year'' for one year, ``N years'' otherwise.\<close>

definition years_label :: "int \<Rightarrow> string" where
  "years_label n = (if n = 1 then ''1 year'' else Number_toString n @ '' years'')"

text \<open>The specification's \<open>clamp\<close> of a value into an interval.\<close>

definition clamp :: "int \<Rightarrow> int \<Rightarrow> int \<Rightarrow> int" where
  "clamp x lo hi = (if x < lo then lo else if hi < x then hi else x)"

text \<open>The invariant of the data model: every level lies between 0 and 100.\<close>

definition levels_in_range :: "dataset \<Rightarrow> bool" where
  "levels_in_range d = (\<forall>s \<in> set (records d). 0 \<le> level s \<and> level s \<le> 100)"

text \<open>Turning \<open>years = 0\<close> into a missing \<open>years\<close> field, in one record and in all records of a
  dataset.\<close>

definition forget_zero_years :: "skill \<Rightarrow> skill" where
  "forget_zero_years s = (if years s = Some 0 then s\<lparr>years := None\<rparr> else s)"

definition map_records :: "(skill \<Rightarrow> skill) \<Rightarrow> dataset \<Rightarrow> dataset" where
  "map_records f d = d\<lparr>skills := map (\<lambda>(k, xs). (k, map f xs)) (skills d)\<rparr>"

text \<open>Two states are the same but for the page.\<close>

definition same_manager :: "state \<Rightarrow> state \<Rightarrow> bool" where
  "same_manager s s' =
     (skillsData s' = skillsData s \<and> localStorage s' = localStorage s \<and>
      console s' = console s \<and> frames s' = frames s \<and> initialized s' = initialized s)"

subsection \<open>Example states\<close>

text \<open>A fresh manager (the constructor's field values) in a browser with an empty page, an
  empty store and an empty console; and a page that has the three statistics elements.\<close>

definition st0 :: state where
  "st0 = \<lparr>skillsData = None, initialized = False, document = Map.empty,
          localStorage = \<lparr>items = Map.empty, denied = False, full = False\<rparr>,
          console = [], frames = []\<rparr>"

definition stats_page :: "string \<rightharpoonup> string" where
  "stats_page = [''total-skills'' \<mapsto> ''-'', ''avg-proficiency'' \<mapsto> ''-'', ''total-years'' \<mapsto> ''-'']"

text \<open>The record \<open>{name: "Git", level: 90, years: 4}\<close> of the fallback dataset; a manager that
  holds the fallback dataset; a store whose quota is used up; a store whose entry is not
  JSON.\<close>

definition git :: skill where
  "git = \<lparr>name = ''Git'', level = 90, icon = [CHR 0xF0, CHR 0x9F, CHR 0x93, CHR 0x9D],
          years = Some 4, description = None\<rparr>"

definition fallback_state :: state where
  "fallback_state = st0\<lparr>skillsData := Some getFallbackSkillsData\<rparr>"

definition full_store :: storage where
  "full_store = \<lparr>items = Map.empty, denied = False, full = True\<rparr>"

definition broken_store :: storage where
  "broken_store = \<lparr>items = [''portfolio-skills'' \<mapsto> Malformed ''{skills:''], denied = False, full = False\<rparr>"

section \<open>Properties\<close>

subsection \<open>Tier labels\<close>

text \<open>
  C5. For every level \<open>L\<close>, and so for every \<open>L\<close> from 0 to 100, \<open>getProficiencyLabel L\<close> is
  one of the four pairwise different labels Expert, Advanced, Intermediate, Beginner, and the
  lower boundaries are inclusive: \<open>L \<ge> 90\<close> gives Expert, \<open>75 \<le> L \<le> 89\<close> Advanced,
  \<open>60 \<le> L \<le> 74\<close> Intermediate, \<open>L < 60\<close> Beginner.
\<close>

theorem getProficiencyLabel_tiers:
  "getProficiencyLabel L \<in> {''Expert'', ''Advanced'', ''Intermediate'', ''Beginner''} \<and>
   (90 \<le> L \<longrightarrow> getProficiencyLabel L = ''Expert'') \<and>
   (75 \<le> L \<and> L \<le> 89 \<longrightarrow> getProficiencyLabel L = ''Advanced'') \<and>
   (60 \<le> L \<and> L \<le> 74 \<longrightarrow> getProficiencyLabel L = ''Intermediate'') \<and>
   (L < 60 \<longrightarrow> getProficiencyLabel L = ''Beginner'') \<and>
   distinct [''Expert'', ''Advanced'', ''Intermediate'', ''Beginner'']"
  by (simp add: getProficiencyLabel_def)

theorem getProficiencyLabel_tiers_witness:
  "getProficiencyLabel 100 = ''Expert'' \<and> getProficiencyLabel 90 = ''Expert'' \<and>
   getProficiencyLabel 89 = ''Advanced'' \<and> getProficiencyLabel 75 = ''Advanced'' \<and>
   getProficiencyLabel 74 = ''Intermediate'' \<and> getProficiencyLabel 60 = ''Intermediate'' \<and>
   getProficiencyLabel 59 = ''Beginner'' \<and> getProficiencyLabel 0 = ''Beginner''"
  using getProficiencyLabel_tiers [of 100] getProficiencyLabel_tiers [of 90]
    getProficiencyLabel_tiers [of 89] getProficiencyLabel_tiers [of 75]
    getProficiencyLabel_tiers [of 74] getProficiencyLabel_tiers [of 60]
    getProficiencyLabel_tiers [of 59] getProficiencyLabel_tiers [of 0]
  by simp

subsection \<open>Loading falls back to the built-in dataset\<close>

lemma loadSkillsData_returns: "\<exists>st'. loadSkillsData st out = Inr st'"
  by (simp add: loadSkillsData_def split: sum.split)

lemma loadSkillsData_success:
  assumes "response_ok status"
  shows "loadSkillsData st (Response status (Stringified d)) = Inr (st\<lparr>skillsData := d\<rparr>)"
  using assms by (simp add: loadSkillsData_def loadSkillsData_try_def)

lemma fallback_populated:
  "map fst (skills getFallbackSkillsData) = [''frontend'', ''backend'', ''tools'', ''softSkills'']"
  "[] \<notin> set (Object_values (skills getFallbackSkillsData))"
  "length (records getFallbackSkillsData) = 12"
  by (simp_all add: getFallbackSkillsData_def Object_values_def records_def)

text \<open>
  C1, as amended. Whatever the fetch settles to, \<open>loadSkillsData\<close> returns normally. When
  the fetch failed (it was rejected, the status was not a success, or the body did not
  parse), the manager holds the built-in fallback dataset afterwards, which is not \<open>null\<close>
  and not empty: it has twelve records and no empty category. When the fetch succeeded, the
  manager holds the parsed document as it is.
\<close>

theorem loadSkillsData_fallback:
  "(\<exists>st'. loadSkillsData st out = Inr st' \<and>
      (fetch_failed out \<longrightarrow> skillsData st' = Some getFallbackSkillsData) \<and>
      (\<forall>status d. response_ok status \<and> out = Response status (Stringified d) \<longrightarrow>
         skillsData st' = d)) \<and>
   length (records getFallbackSkillsData) = 12 \<and>
   [] \<notin> set (Object_values (skills getFallbackSkillsData))"
proof -
  have "\<exists>st'. loadSkillsData st out = Inr st' \<and>
      (fetch_failed out \<longrightarrow> skillsData st' = Some getFallbackSkillsData) \<and>
      (\<forall>status d. response_ok status \<and> out = Response status (Stringified d) \<longrightarrow>
         skillsData st' = d)"
  proof (cases out)
    case (Rejected e)
    then show ?thesis by (simp add: loadSkillsData_def loadSkillsData_try_def)
  next
    case (Response status body)
    then show ?thesis
      by (cases body) (simp_all add: loadSkillsData_def loadSkillsData_try_def fetch_failed_def)
  qed
  then show ?thesis using fallback_populated by simp
qed

theorem loadSkillsData_fallback_witness:
  "fetch_failed (Rejected (TypeError ''Failed to fetch'')) \<and>
   fetch_failed (Response 404 (Malformed ''Not Found'')) \<and>
   fetch_failed (Response 200 (Malformed ''<html>'')) \<and>
   (\<exists>st'. loadSkillsData st0 (Rejected (TypeError ''Failed to fetch'')) = Inr st' \<and>
      skillsData st' = Some getFallbackSkillsData) \<and>
   (\<exists>st'. loadSkillsData st0 (Response 404 (Malformed ''Not Found'')) = Inr st' \<and>
      skillsData st' = Some getFallbackSkillsData) \<and>
   (\<exists>st'. loadSkillsData st0 (Response 200 (Malformed ''<html>'')) = Inr st' \<and>
      skillsData st' = Some getFallbackSkillsData) \<and>
   response_ok 200 \<and>
   (\<exists>st'. loadSkillsData st0 (Response 200 (Stringified (Some \<lparr>skills = [(''tools'', [git])]\<rparr>))) =
      Inr st' \<and> skillsData st' = Some \<lparr>skills = [(''tools'', [git])]\<rparr>)"
  using loadSkillsData_fallback [of st0 "Rejected (TypeError ''Failed to fetch'')"]
    loadSkillsData_fallback [of st0 "Response 404 (Malformed ''Not Found'')"]
    loadSkillsData_fallback [of st0 "Response 200 (Malformed ''<html>'')"]
    loadSkillsData_fallback
      [of st0 "Response 200 (Stringified (Some \<lparr>skills = [(''tools'', [git])]\<rparr>))"]
  by (simp add: fetch_failed_def response_ok_def)

text \<open>
  C1 as stated fails on a fetch that succeeds: \<open>this.skillsData = await response.json()\<close>
  stores whatever parses. A response with status 200 and the body \<open>null\<close> leaves the dataset
  \<open>null\<close>, and the body \<open>{"skills":{}}\<close> leaves a dataset with no record.
\<close>

theorem loadSkillsData_null_body_counterexample:
  "\<not> fetch_failed (Response 200 (Stringified None)) \<and>
   loadSkillsData st0 (Response 200 (Stringified None)) = Inr st0 \<and>
   skillsData st0 = None \<and>
   loadSkillsData st0 (Response 200 (Stringified (Some \<lparr>skills = []\<rparr>))) =
     Inr (st0\<lparr>skillsData := Some \<lparr>skills = []\<rparr>\<rparr>) \<and>
   records \<lparr>skills = []\<rparr> = []"
  by (simp add: fetch_failed_def response_ok_def loadSkillsData_def loadSkillsData_try_def
      st0_def records_def Object_values_def)

subsection \<open>Statistics\<close>

lemma count_skill_eq:
  "count_skill s c =
     \<lparr>totalSkills = totalSkills c + 1,
      totalProficiency = totalProficiency c + level s,
      totalYears = totalYears c + years_or_0 s,
      countedSkills = countedSkills c + 1\<rparr>"
  by (cases "years s") (simp_all add: count_skill_def years_or_0_def Let_def)

lemma fold_count_skill:
  "fold count_skill xs c =
     \<lparr>totalSkills = totalSkills c + int (length xs),
      totalProficiency = totalProficiency c + sum_list (map level xs),
      totalYears = totalYears c + sum_list (map years_or_0 xs),
      countedSkills = countedSkills c + int (length xs)\<rparr>"
proof (induction xs arbitrary: c)
  case Nil
  then show ?case by simp
next
  case (Cons s xs)
  have "fold count_skill (s # xs) c = fold count_skill xs (count_skill s c)"
    by simp
  also have "\<dots> = \<lparr>totalSkills = totalSkills (count_skill s c) + int (length xs),
      totalProficiency = totalProficiency (count_skill s c) + sum_list (map level xs),
      totalYears = totalYears (count_skill s c) + sum_list (map years_or_0 xs),
      countedSkills = countedSkills (count_skill s c) + int (length xs)\<rparr>"
    by (rule Cons.IH)
  also have "\<dots> = \<lparr>totalSkills = totalSkills c + int (length (s # xs)),
      totalProficiency = totalProficiency c + sum_list (map level (s # xs)),
      totalYears = totalYears c + sum_list (map years_or_0 (s # xs)),
      countedSkills = countedSkills c + int (length (s # xs))\<rparr>"
    by (simp add: count_skill_eq)
  finally show ?case .
qed

lemma count_all_eq:
  "count_all d =
     \<lparr>totalSkills = int (length (records d)),
      totalProficiency = sum_list (map level (records d)),
      totalYears = sum_list (map years_or_0 (records d)),
      countedSkills = int (length (records d))\<rparr>"
proof -
  have "fold (\<lambda>category c. fold count_skill category c) xss c = fold count_skill (concat xss) c"
    for xss c
    by (induction xss arbitrary: c) simp_all
  then show ?thesis
    by (simp add: count_all_def records_def fold_count_skill)
qed

lemma Math_round_nearest: "nearest_integer x (Math_round x)"
  unfolding nearest_integer_def Math_round_def by linarith

lemma average_eq:
  "average (count_all d) = (if records d = [] then None else Some (Math_round (mean_level d)))"
  by (simp add: average_def count_all_eq mean_level_def)

lemma average_guard: "(average c \<noteq> None) = (0 < countedSkills c)"
  by (simp add: average_def)

lemma calculateAndDisplayStats_returns: "\<exists>st'. calculateAndDisplayStats st = Inr st'"
  by (simp add: calculateAndDisplayStats_def Let_def split: option.split)

lemma calculateAndDisplayStats_document:
  assumes "skillsData st = Some d" "calculateAndDisplayStats st = Inr st'"
  shows "document st' ''total-skills'' =
           (if document st ''total-skills'' = None then None
            else Some (Number_toString (totalSkills (count_all d))))"
    and "document st' ''total-years'' =
           (if document st ''total-years'' = None then None
            else Some (Number_toString (totalYears (count_all d))))"
    and "document st' ''avg-proficiency'' =
           (if document st ''avg-proficiency'' = None \<or> average (count_all d) = None
            then document st ''avg-proficiency''
            else Some (Number_toString (the (average (count_all d))) @ ''%''))"
  using assms
  by (auto simp add: calculateAndDisplayStats_def Let_def set_content_def animateValue_def
      split: option.splits)

lemma calculateAndDisplayStats_frame:
  assumes "calculateAndDisplayStats st = Inr st'"
  shows "skillsData st' = skillsData st \<and> localStorage st' = localStorage st \<and>
         console st' = console st \<and> initialized st' = initialized st"
  using assms
  by (auto simp add: calculateAndDisplayStats_def Let_def set_content_def animateValue_def
      split: option.splits)

lemma Number_toString_examples:
  "Number_toString 0 = ''0''" "Number_toString 1 = ''1''" "Number_toString 4 = ''4''"
  "Number_toString 12 = ''12''" "Number_toString 32 = ''32''" "Number_toString 87 = ''87''"
  by (simp_all add: Number_toString_def digits.simps digit_char_def)

text \<open>
  C6. On a dataset \<open>d\<close>, \<open>calculateAndDisplayStats\<close> counts \<open>totalSkills\<close> as the number of
  records of all categories and \<open>totalYears\<close> as the sum of the \<open>years\<close> fields, a missing
  field counting as 0; when there is a record, the average it computes is the mean of the
  levels rounded to a nearest integer (\<open>Math.round\<close>, at most one half away from the mean).
  Each number is written to its element of the page when that element exists.
\<close>

theorem calculateAndDisplayStats_aggregates:
  assumes "skillsData st = Some d"
  shows "\<exists>st'. calculateAndDisplayStats st = Inr st' \<and>
     totalSkills (count_all d) = int (length (records d)) \<and>
     totalYears (count_all d) = sum_list (map years_or_0 (records d)) \<and>
     (records d \<noteq> [] \<longrightarrow>
        average (count_all d) = Some (Math_round (mean_level d)) \<and>
        nearest_integer (mean_level d) (Math_round (mean_level d))) \<and>
     (document st ''total-skills'' \<noteq> None \<longrightarrow>
        document st' ''total-skills'' = Some (Number_toString (int (length (records d))))) \<and>
     (document st ''total-years'' \<noteq> None \<longrightarrow>
        document st' ''total-years'' =
          Some (Number_toString (sum_list (map years_or_0 (records d))))) \<and>
     (document st ''avg-proficiency'' \<noteq> None \<and> records d \<noteq> [] \<longrightarrow>
        document st' ''avg-proficiency'' =
          Some (Number_toString (Math_round (mean_level d)) @ ''%''))"
proof -
  obtain st' where r: "calculateAndDisplayStats st = Inr st'"
    using calculateAndDisplayStats_returns by blast
  note doc = calculateAndDisplayStats_document [OF assms r]
  have "totalSkills (count_all d) = int (length (records d))"
    and "totalYears (count_all d) = sum_list (map years_or_0 (records d))"
    by (simp_all add: count_all_eq)
  moreover have "document st ''total-skills'' \<noteq> None \<longrightarrow>
        document st' ''total-skills'' = Some (Number_toString (int (length (records d))))"
    by (simp add: doc count_all_eq)
  moreover have "document st ''total-years'' \<noteq> None \<longrightarrow>
        document st' ''total-years'' =
          Some (Number_toString (sum_list (map years_or_0 (records d))))"
    by (simp add: doc count_all_eq)
  moreover have "document st ''avg-proficiency'' \<noteq> None \<and> records d \<noteq> [] \<longrightarrow>
        document st' ''avg-proficiency'' =
          Some (Number_toString (Math_round (mean_level d)) @ ''%'')"
    by (simp add: doc average_eq)
  ultimately show ?thesis
    using r by (simp add: average_eq Math_round_nearest)
qed

lemma mean_fallback: "mean_level getFallbackSkillsData = 173 / 2"
  by (simp add: mean_level_def records_def getFallbackSkillsData_def Object_values_def)

theorem calculateAndDisplayStats_aggregates_witness:
  "\<exists>st'. calculateAndDisplayStats
       (st0\<lparr>skillsData := Some getFallbackSkillsData, document := stats_page\<rparr>) = Inr st' \<and>
     totalSkills (count_all getFallbackSkillsData) = 12 \<and>
     totalYears (count_all getFallbackSkillsData) = 32 \<and>
     average (count_all getFallbackSkillsData) = Some 87 \<and>
     document st' ''total-skills'' = Some ''12'' \<and>
     document st' ''total-years'' = Some ''32'' \<and>
     document st' ''avg-proficiency'' = Some ''87%''"
proof -
  have len: "length (records getFallbackSkillsData) = 12"
    and recs: "records getFallbackSkillsData \<noteq> []"
    and yrs: "sum_list (map years_or_0 (records getFallbackSkillsData)) = 32"
    by (simp_all add: records_def getFallbackSkillsData_def Object_values_def years_or_0_def)
  have rnd: "Math_round (mean_level getFallbackSkillsData) = 87"
    by (simp add: mean_fallback Math_round_def)
  show ?thesis
    using calculateAndDisplayStats_aggregates
      [of "st0\<lparr>skillsData := Some getFallbackSkillsData, document := stats_page\<rparr>"
          getFallbackSkillsData]
    by (simp add: len recs yrs rnd Number_toString_examples stats_page_def st0_def) blast
qed

text \<open>
  C7. On a dataset with no record, \<open>calculateAndDisplayStats\<close> returns normally with
  \<open>totalSkills = 0\<close>; no average is computed and the average element is left as it was, and
  the page shows 0 skills. In general the average, and with it the division, is computed
  exactly when \<open>countedSkills\<close> is positive.
\<close>

theorem calculateAndDisplayStats_empty:
  assumes "skillsData st = Some d" and "records d = []"
  shows "\<exists>st'. calculateAndDisplayStats st = Inr st' \<and>
     totalSkills (count_all d) = 0 \<and>
     average (count_all d) = None \<and>
     document st' ''avg-proficiency'' = document st ''avg-proficiency'' \<and>
     (document st ''total-skills'' \<noteq> None \<longrightarrow> document st' ''total-skills'' = Some ''0'') \<and>
     (\<forall>c. (average c \<noteq> None) = (0 < countedSkills c))"
proof -
  obtain st' where r: "calculateAndDisplayStats st = Inr st'"
    using calculateAndDisplayStats_returns by blast
  note doc = calculateAndDisplayStats_document [OF assms(1) r]
  note z = Number_toString_examples(1)
  have "document st' ''avg-proficiency'' = document st ''avg-proficiency''"
    by (simp add: doc average_eq assms(2))
  moreover have "document st ''total-skills'' \<noteq> None \<longrightarrow> document st' ''total-skills'' = Some ''0''"
    by (simp add: doc count_all_eq assms(2) z)
  moreover have "average (count_all d) = None"
    by (simp add: average_eq assms(2))
  moreover have "totalSkills (count_all d) = 0"
    by (simp add: count_all_eq assms(2))
  ultimately show ?thesis
    using r average_guard by blast
qed

theorem calculateAndDisplayStats_empty_witness:
  "\<exists>st'. calculateAndDisplayStats
       (st0\<lparr>skillsData := Some \<lparr>skills = [(''frontend'', []), (''tools'', [])]\<rparr>,
            document := stats_page\<rparr>) = Inr st' \<and>
     totalSkills (count_all \<lparr>skills = [(''frontend'', []), (''tools'', [])]\<rparr>) = 0 \<and>
     average (count_all \<lparr>skills = [(''frontend'', []), (''tools'', [])]\<rparr>) = None \<and>
     document st' ''avg-proficiency'' = Some ''-'' \<and>
     document st' ''total-skills'' = Some ''0''"
  using calculateAndDisplayStats_empty
    [of "st0\<lparr>skillsData := Some \<lparr>skills = [(''frontend'', []), (''tools'', [])]\<rparr>,
             document := stats_page\<rparr>"
        "\<lparr>skills = [(''frontend'', []), (''tools'', [])]\<rparr>"]
  by (simp add: records_def Object_values_def stats_page_def st0_def) blast

subsection \<open>The years label of a rendered record\<close>

lemma sublist_skip: "sublist xs zs \<Longrightarrow> sublist xs (ys @ zs)"
  by (metis append.assoc sublist_def)

lemma years_span_sublist: "sublist (years_span s) (createSkillElement s)"
  unfolding createSkillElement_def
  by ((rule sublist_append_rightI | rule sublist_skip)+)

lemma label_sublist: "sublist (getProficiencyLabel (level s)) (createSkillElement s)"
  unfolding createSkillElement_def
  by ((rule sublist_append_rightI | rule sublist_skip)+)

lemma years_span_truthy:
  assumes "years s = Some n" and "n \<noteq> 0"
  shows \<open>years_span s = ''<span class="skill__years">'' @ years_label n @ ''</span>''\<close>
  using assms by (simp add: years_span_def years_label_def Number_toString_examples)

text \<open>
  C8, as amended. For a record whose \<open>years\<close> is a number \<open>n\<close> other than 0, the fragment
  that \<open>createSkillElement\<close> renders contains the years element with the label ``1 year''
  when \<open>n = 1\<close> and ``\<open>n\<close> years'' otherwise; it also contains the tier label of the record's
  level. For the record \<open>{name: "Git", level: 90, years: 4}\<close> these are ``4 years'' and
  ``Expert''.
\<close>

theorem createSkillElement_years_label:
  assumes "years s = Some n" and "n \<noteq> 0"
  shows \<open>sublist (''<span class="skill__years">'' @ years_label n @ ''</span>'')
           (createSkillElement s) \<and>
         sublist (getProficiencyLabel (level s)) (createSkillElement s) \<and>
         years_label 1 = ''1 year'' \<and>
         (n \<noteq> 1 \<longrightarrow> years_label n = Number_toString n @ '' years'')\<close>
  using years_span_sublist [of s] label_sublist [of s] years_span_truthy [OF assms]
  by (simp add: years_label_def)

theorem createSkillElement_years_label_witness:
  \<open>sublist ''<span class="skill__years">4 years</span>'' (createSkillElement git) \<and>
   sublist ''Expert'' (createSkillElement git) \<and>
   sublist ''<span class="skill__years">1 year</span>'' (createSkillElement (git\<lparr>years := Some 1\<rparr>))\<close>
  using createSkillElement_years_label [of git 4]
    createSkillElement_years_label [of "git\<lparr>years := Some 1\<rparr>" 1]
  by (simp add: git_def years_label_def getProficiencyLabel_def Number_toString_examples)

text \<open>
  C8 as stated fails for a record whose \<open>years\<close> is the defined value 0: the test
  \<open>skill.years ? ... : ''\<close> is falsy, and the fragment contains neither ``0 years'' nor any
  years element.
\<close>

theorem createSkillElement_zero_years_counterexample:
  \<open>years (git\<lparr>years := Some 0\<rparr>) = Some 0 \<and>
   \<not> sublist (Number_toString 0 @ '' years'') (createSkillElement (git\<lparr>years := Some 0\<rparr>)) \<and>
   \<not> sublist ''skill__years'' (createSkillElement (git\<lparr>years := Some 0\<rparr>))\<close>
proof -
  have \<open>\<not> sublist ''0 years'' (createSkillElement (git\<lparr>years := Some 0\<rparr>))\<close>
    by (simp add: createSkillElement_def years_span_def description_p_def git_def
        getProficiencyClass_def getProficiencyLabel_def Number_toString_def digits.simps
        digit_char_def sublist_Cons_right)
  moreover have \<open>\<not> sublist ''skill__years'' (createSkillElement (git\<lparr>years := Some 0\<rparr>))\<close>
    by (simp add: createSkillElement_def years_span_def description_p_def git_def
        getProficiencyClass_def getProficiencyLabel_def Number_toString_def digits.simps
        digit_char_def sublist_Cons_right)
  ultimately show ?thesis
    by (simp add: Number_toString_examples)
qed

subsection \<open>Zero years and missing years\<close>

lemma createSkillElement_forget: "createSkillElement (forget_zero_years s) = createSkillElement s"
  by (simp add: forget_zero_years_def createSkillElement_def years_span_def description_p_def)

lemma createSoftSkillBadge_forget: "createSoftSkillBadge (forget_zero_years s) = createSoftSkillBadge s"
  by (simp add: forget_zero_years_def createSoftSkillBadge_def)

lemma records_map_records: "records (map_records f d) = map f (records d)"
proof -
  have "concat (map snd (map (\<lambda>(k, xs). (k, map f xs)) ps)) = map f (concat (map snd ps))"
    for ps :: "(string \<times> skill list) list"
    by (induction ps) auto
  then show ?thesis
    by (simp add: records_def map_records_def Object_values_def)
qed

lemma count_all_forget: "count_all (map_records forget_zero_years d) = count_all d"
proof -
  have "years_or_0 (forget_zero_years s) = years_or_0 s" and "level (forget_zero_years s) = level s"
    for s
    by (simp_all add: forget_zero_years_def years_or_0_def)
  then show ?thesis
    by (simp add: count_all_eq records_map_records comp_def)
qed

text \<open>
  C10. A record with \<open>years = 0\<close> is rendered exactly as the same record without \<open>years\<close>,
  with no years element, and it adds to the counters exactly what the record without
  \<open>years\<close> adds, leaving \<open>totalYears\<close> as it was. So replacing \<open>years = 0\<close> by a missing
  field in the records of a category changes nothing of what \<open>renderTechnicalSkills\<close> and
  \<open>renderSoftSkills\<close> write, and in all records of a dataset nothing of what
  \<open>calculateAndDisplayStats\<close> counts.
\<close>

theorem zero_years_as_missing:
  "createSkillElement (s\<lparr>years := Some 0\<rparr>) = createSkillElement (s\<lparr>years := None\<rparr>) \<and>
   years_span (s\<lparr>years := Some 0\<rparr>) = [] \<and>
   count_skill (s\<lparr>years := Some 0\<rparr>) c = count_skill (s\<lparr>years := None\<rparr>) c \<and>
   totalYears (count_skill (s\<lparr>years := Some 0\<rparr>) c) = totalYears c \<and>
   renderTechnicalSkills st category (Own (map forget_zero_years xs)) =
     renderTechnicalSkills st category (Own xs) \<and>
   renderSoftSkills st (Own (map forget_zero_years xs)) = renderSoftSkills st (Own xs) \<and>
   count_all (map_records forget_zero_years d) = count_all d"
proof -
  have "createSkillElement (s\<lparr>years := Some 0\<rparr>) = createSkillElement (s\<lparr>years := None\<rparr>)"
    by (simp add: createSkillElement_def years_span_def description_p_def)
  moreover have "years_span (s\<lparr>years := Some 0\<rparr>) = []"
    by (simp add: years_span_def)
  moreover have "count_skill (s\<lparr>years := Some 0\<rparr>) c = count_skill (s\<lparr>years := None\<rparr>) c"
    and "totalYears (count_skill (s\<lparr>years := Some 0\<rparr>) c) = totalYears c"
    by (simp_all add: count_skill_eq years_or_0_def)
  moreover have "renderTechnicalSkills st category (Own (map forget_zero_years xs)) =
     renderTechnicalSkills st category (Own xs)"
    by (simp add: renderTechnicalSkills_def comp_def createSkillElement_forget Let_def
        split: option.split)
  moreover have "renderSoftSkills st (Own (map forget_zero_years xs)) = renderSoftSkills st (Own xs)"
    by (simp add: renderSoftSkills_def comp_def createSoftSkillBadge_forget Let_def
        split: option.split)
  ultimately show ?thesis
    by (simp add: count_all_forget)
qed

lemma fallback_total_years: "totalYears (count_all getFallbackSkillsData) = 32"
  by (simp add: count_all_eq records_def getFallbackSkillsData_def Object_values_def years_or_0_def)

theorem zero_years_as_missing_witness:
  "createSkillElement (git\<lparr>years := Some 0\<rparr>) = createSkillElement (git\<lparr>years := None\<rparr>) \<and>
   years_span (git\<lparr>years := Some 0\<rparr>) = [] \<and>
   totalYears (count_skill (git\<lparr>years := Some 0\<rparr>) (count_all getFallbackSkillsData)) = 32 \<and>
   count_all (map_records forget_zero_years
       \<lparr>skills = [(''tools'', [git, git\<lparr>years := Some 0\<rparr>])]\<rparr>) =
     count_all \<lparr>skills = [(''tools'', [git, git\<lparr>years := Some 0\<rparr>])]\<rparr>"
  using zero_years_as_missing
      [of git "count_all getFallbackSkillsData" st0 "''tools''" "[]"
          "\<lparr>skills = [(''tools'', [git, git\<lparr>years := Some 0\<rparr>])]\<rparr>"]
    fallback_total_years
  by metis

subsection \<open>Persistence\<close>

lemma saveToLocalStorage_returns: "\<exists>st'. saveToLocalStorage st = Inr st'"
  by (simp add: saveToLocalStorage_def split: sum.split)

lemma saveToLocalStorage_frame:
  assumes "saveToLocalStorage st = Inr st'"
  shows "skillsData st' = skillsData st \<and> document st' = document st \<and>
         initialized st' = initialized st \<and> frames st' = frames st"
  using assms by (auto simp add: saveToLocalStorage_def split: sum.splits)

lemma saveToLocalStorage_written:
  assumes "\<not> denied (localStorage st)" and "\<not> full (localStorage st)"
  shows "saveToLocalStorage st =
     Inr (st\<lparr>localStorage := (localStorage st)
            \<lparr>items := (items (localStorage st))
               (''portfolio-skills'' \<mapsto> Stringified (skillsData st))\<rparr>\<rparr>)"
  using assms by (simp add: saveToLocalStorage_def setItem_def JSON_stringify_def)

lemma loadFromLocalStorage_cases:
  "loadFromLocalStorage st =
     (if denied (localStorage st) then
        Inr (st\<lparr>console := console st @
               [Warn ''Could not load skills from localStorage:''
                  (Thrown (DOMException ''SecurityError''))]\<rparr>, False)
      else case items (localStorage st) ''portfolio-skills'' of
        None \<Rightarrow> Inr (st, False)
      | Some (Stringified d) \<Rightarrow> Inr (st\<lparr>skillsData := d\<rparr>, True)
      | Some (Malformed s) \<Rightarrow>
          if s = [] then Inr (st, False)
          else Inr (st\<lparr>console := console st @
                      [Warn ''Could not load skills from localStorage:''
                         (Thrown (SyntaxError s))]\<rparr>, False))"
  by (simp add: loadFromLocalStorage_def loadFromLocalStorage_try_def getItem_def
      split: option.split json_text.split)

text \<open>
  C9, as amended. \<open>loadFromLocalStorage\<close> never throws. For every state of the store it
  returns a boolean: \<open>true\<close> exactly when storage is accessible and the key holds a text that
  parses, and then the parsed document is the manager's dataset; \<open>false\<close> otherwise, with the
  dataset as it was. The store and the page are untouched. A failure of \<open>getItem\<close> or of
  \<open>JSON.parse\<close> is caught and only written to the console.
\<close>

theorem loadFromLocalStorage_outcome:
  "\<exists>st' found. loadFromLocalStorage st = Inr (st', found) \<and>
     (found \<longleftrightarrow>
        \<not> denied (localStorage st) \<and>
        (\<exists>d. items (localStorage st) ''portfolio-skills'' = Some (Stringified d))) \<and>
     (found \<longrightarrow>
        items (localStorage st) ''portfolio-skills'' = Some (Stringified (skillsData st'))) \<and>
     (\<not> found \<longrightarrow> skillsData st' = skillsData st) \<and>
     localStorage st' = localStorage st \<and> document st' = document st"
  by (simp add: loadFromLocalStorage_cases split: option.split json_text.split)

theorem loadFromLocalStorage_outcome_witness:
  "(\<exists>st'. loadFromLocalStorage
       (st0\<lparr>localStorage := \<lparr>items = [''portfolio-skills'' \<mapsto> Stringified (Some getFallbackSkillsData)],
                               denied = False, full = False\<rparr>\<rparr>) = Inr (st', True) \<and>
      skillsData st' = Some getFallbackSkillsData) \<and>
   (\<exists>st'. loadFromLocalStorage st0 = Inr (st', False) \<and> skillsData st' = None) \<and>
   (\<exists>st'. loadFromLocalStorage (st0\<lparr>localStorage := broken_store\<rparr>) = Inr (st', False) \<and>
      skillsData st' = None)"
  using loadFromLocalStorage_outcome
      [of "st0\<lparr>localStorage := \<lparr>items = [''portfolio-skills'' \<mapsto> Stringified (Some getFallbackSkillsData)],
                               denied = False, full = False\<rparr>\<rparr>"]
    loadFromLocalStorage_outcome [of st0]
    loadFromLocalStorage_outcome [of "st0\<lparr>localStorage := broken_store\<rparr>"]
  by (auto simp add: st0_def broken_store_def)

text \<open>
  C9 as stated fails: the caller cannot tell an absent key from a value that is not JSON.
  Both calls return \<open>false\<close> and leave the manager as it was; the only difference is a line
  on the console.
\<close>

theorem loadFromLocalStorage_absent_invalid_counterexample:
  "loadFromLocalStorage st0 = Inr (st0, False) \<and>
   loadFromLocalStorage (st0\<lparr>localStorage := broken_store\<rparr>) =
     Inr (st0\<lparr>localStorage := broken_store,
             console := [Warn ''Could not load skills from localStorage:''
                           (Thrown (SyntaxError ''{skills:''))]\<rparr>, False)"
  by (simp add: loadFromLocalStorage_cases st0_def broken_store_def)

text \<open>
  C4, as amended. When the store is accessible and accepts the write, saving the dataset
  and then loading it, in the same session or in a later one over the same store, returns
  \<open>true\<close> and yields a dataset equal to the one saved.
\<close>

theorem save_then_load:
  assumes "\<not> denied (localStorage st)" and "\<not> full (localStorage st)"
  shows "\<exists>st1. saveToLocalStorage st = Inr st1 \<and>
     (\<forall>st2. localStorage st2 = localStorage st1 \<longrightarrow>
        (\<exists>st3. loadFromLocalStorage st2 = Inr (st3, True) \<and> skillsData st3 = skillsData st))"
  by (simp add: saveToLocalStorage_written [OF assms] loadFromLocalStorage_cases assms)

theorem save_then_load_witness:
  "\<exists>st1. saveToLocalStorage (st0\<lparr>skillsData := Some getFallbackSkillsData\<rparr>) = Inr st1 \<and>
     (\<exists>st3. loadFromLocalStorage (st1\<lparr>skillsData := None\<rparr>) = Inr (st3, True) \<and>
        skillsData st3 = Some getFallbackSkillsData)"
proof -
  have "\<not> denied (localStorage (st0\<lparr>skillsData := Some getFallbackSkillsData\<rparr>))"
    and "\<not> full (localStorage (st0\<lparr>skillsData := Some getFallbackSkillsData\<rparr>))"
    by (simp_all add: st0_def)
  from save_then_load [OF this] obtain st1 where
    s: "saveToLocalStorage (st0\<lparr>skillsData := Some getFallbackSkillsData\<rparr>) = Inr st1" and
    l: "\<And>st2. localStorage st2 = localStorage st1 \<Longrightarrow>
        \<exists>st3. loadFromLocalStorage st2 = Inr (st3, True) \<and>
          skillsData st3 = skillsData (st0\<lparr>skillsData := Some getFallbackSkillsData\<rparr>)"
    by blast
  from l [of "st1\<lparr>skillsData := None\<rparr>"] s show ?thesis
    by simp
qed

text \<open>
  C4 as stated fails when the quota of the store is used up: \<open>saveToLocalStorage\<close> catches
  the error of \<open>setItem\<close> and writes nothing, so \<open>loadFromLocalStorage\<close> finds nothing, in
  the same session and in a new one, where the dataset stays \<open>null\<close>.
\<close>

theorem save_then_load_full_store_counterexample:
  "saveToLocalStorage (fallback_state\<lparr>localStorage := full_store\<rparr>) =
     Inr (fallback_state\<lparr>localStorage := full_store,
             console := [Warn ''Could not save skills to localStorage:''
                           (Thrown (DOMException ''QuotaExceededError''))]\<rparr>) \<and>
   snd (projr (loadFromLocalStorage
     (fallback_state\<lparr>localStorage := full_store,
             console := [Warn ''Could not save skills to localStorage:''
                           (Thrown (DOMException ''QuotaExceededError''))]\<rparr>))) = False \<and>
   loadFromLocalStorage (st0\<lparr>localStorage := full_store\<rparr>) =
     Inr (st0\<lparr>localStorage := full_store\<rparr>, False) \<and>
   skillsData (st0\<lparr>localStorage := full_store\<rparr>) \<noteq> Some getFallbackSkillsData"
  by (simp add: saveToLocalStorage_def setItem_def loadFromLocalStorage_cases st0_def
      fallback_state_def full_store_def)

subsection \<open>Updating a level\<close>

lemma forEach_invariant:
  assumes step: "\<And>x s. x \<in> set xs \<Longrightarrow> \<exists>s'. f x s = Inr s' \<and> R s s'"
    and refl: "\<And>s. R s s"
    and trans: "\<And>a b c. R a b \<Longrightarrow> R b c \<Longrightarrow> R a c"
  shows "\<exists>s'. forEach f xs s = Inr s' \<and> R s s'"
  using step
proof (induction xs arbitrary: s)
  case Nil
  then show ?case by (simp add: refl)
next
  case (Cons x xs)
  from Cons.prems [of x s] obtain s1 where s1: "f x s = Inr s1" "R s s1"
    by auto
  from Cons.IH [of s1] Cons.prems obtain s2 where s2: "forEach f xs s1 = Inr s2" "R s1 s2"
    by auto
  from s1 s2 show ?case
    by (auto intro: trans)
qed

lemma render_category:
  assumes "category \<notin> set Object_prototype_keys"
  shows "\<exists>st'. (case get_property (skills d) category of
                  Undefined \<Rightarrow> Inr st
                | v \<Rightarrow> if category = ''softSkills'' then renderSoftSkills st v
                       else renderTechnicalSkills st category v) = Inr st' \<and>
               same_manager st st'"
  using assms
  by (auto simp add: get_property_def renderSoftSkills_def renderTechnicalSkills_def
      set_content_def same_manager_def Let_def split: option.splits)

lemma renderSkills_returns: "\<exists>st'. renderSkills st = Inr st' \<and> same_manager st st'"
proof (cases "skillsData st")
  case None
  then show ?thesis by (simp add: renderSkills_def same_manager_def)
next
  case (Some d)
  have "\<exists>s'. forEach
            (\<lambda>category st.
               case get_property (skills d) category of
                 Undefined \<Rightarrow> Inr st
               | v \<Rightarrow>
                   if category = ''softSkills'' then renderSoftSkills st v
                   else renderTechnicalSkills st category v)
            [''frontend'', ''backend'', ''tools'', ''softSkills''] st = Inr s' \<and> same_manager st s'"
  proof (rule forEach_invariant)
    fix x :: string and s :: state
    assume "x \<in> set [''frontend'', ''backend'', ''tools'', ''softSkills'']"
    then have "x \<notin> set Object_prototype_keys"
      by (auto simp add: Object_prototype_keys_def)
    then show "\<exists>s'. (case get_property (skills d) x of
                  Undefined \<Rightarrow> Inr s
                | v \<Rightarrow> if x = ''softSkills'' then renderSoftSkills s v
                       else renderTechnicalSkills s x v) = Inr s' \<and> same_manager s s'"
      by (rule render_category)
  qed (auto simp add: same_manager_def)
  with Some show ?thesis by (simp add: renderSkills_def)
qed

lemma assign_level_first:
  assumes "i < length xs" and "name (xs ! i) = nm" and "\<forall>j<i. name (xs ! j) \<noteq> nm"
  shows "assign_level nm v xs = Some (xs[i := (xs ! i)\<lparr>level := v\<rparr>])"
  using assms
proof (induction xs arbitrary: i)
  case Nil
  then show ?case by simp
next
  case (Cons s ss)
  show ?case
  proof (cases i)
    case 0
    with Cons.prems show ?thesis by simp
  next
    case (Suc k)
    with Cons.prems have "name s \<noteq> nm" by auto
    moreover from Suc Cons.prems
    have "assign_level nm v ss = Some (ss[k := (ss ! k)\<lparr>level := v\<rparr>])"
      by (intro Cons.IH) auto
    ultimately show ?thesis using Suc by simp
  qed
qed

lemma assign_level_None: "assign_level nm v xs = None \<longleftrightarrow> nm \<notin> name ` set xs"
  by (induction xs) auto

lemma first_match:
  assumes "nm \<in> name ` set xs"
  shows "\<exists>i<length xs. name (xs ! i) = nm \<and> (\<forall>j<i. name (xs ! j) \<noteq> nm)"
  using assms
proof (induction xs)
  case Nil
  then show ?case by simp
next
  case (Cons s ss)
  show ?case
  proof (cases "name s = nm")
    case True
    then show ?thesis by (intro exI [of _ 0]) simp
  next
    case False
    with Cons obtain i where i: "i < length ss" "name (ss ! i) = nm" "\<forall>j<i. name (ss ! j) \<noteq> nm"
      by auto
    show ?thesis
    proof (intro exI [of _ "Suc i"] conjI allI impI)
      fix j assume "j < Suc i"
      with False i show "name ((s # ss) ! j) \<noteq> nm"
        by (cases j) auto
    qed (use i in auto)
  qed
qed

lemma map_of_put_property:
  "map_of (put_property k v ps) k' =
     (if k' = k \<and> map_of ps k \<noteq> None then Some v else map_of ps k')"
  by (induction ps) auto

lemma keys_put_property: "map fst (put_property k v ps) = map fst ps"
  by (induction ps) auto

lemma records_put_property:
  "set (concat (map snd (put_property k xs' ps))) \<subseteq> set xs' \<union> set (concat (map snd ps))"
proof (induction ps)
  case Nil
  then show ?case by simp
next
  case (Cons p ps)
  obtain k' v' where p: "p = (k', v')" by (cases p)
  show ?case
  proof (cases "k' = k")
    case True
    with p show ?thesis by auto
  next
    case False
    have "x \<in> set xs' \<union> set (concat (map snd (p # ps)))"
      if "x \<in> set (concat (map snd (put_property k xs' (p # ps))))" for x
    proof -
      from that p False
      have "x \<in> set v' \<or> x \<in> set (concat (map snd (put_property k xs' ps)))"
        by simp
      then have "x \<in> set v' \<or> x \<in> set xs' \<union> set (concat (map snd ps))"
        using Cons.IH by blast
      then show ?thesis using p by auto
    qed
    then show ?thesis by blast
  qed
qed

lemma get_property_own: "map_of obj k = Some v \<Longrightarrow> get_property obj k = Own v"
  by (simp add: get_property_def)

lemma updateSkillLevel_found:
  assumes d: "skillsData st = Some d"
    and c: "map_of (skills d) category = Some xs"
    and a: "assign_level nm (min 100 (max 0 newLevel)) xs = Some xs'"
  shows "\<exists>st'. updateSkillLevel st category nm newLevel = Inr (st', True) \<and>
            skillsData st' = Some (d\<lparr>skills := put_property category xs' (skills d)\<rparr>)"
proof -
  let ?d' = "d\<lparr>skills := put_property category xs' (skills d)\<rparr>"
  let ?st1 = "st\<lparr>skillsData := Some ?d'\<rparr>"
  obtain st2 where s2: "saveToLocalStorage ?st1 = Inr st2"
    using saveToLocalStorage_returns by blast
  then have d2: "skillsData st2 = Some ?d'"
    using saveToLocalStorage_frame [OF s2] by simp
  obtain st3 where s3: "renderSkills st2 = Inr st3" and m3: "same_manager st2 st3"
    using renderSkills_returns by blast
  obtain st4 where s4: "calculateAndDisplayStats st3 = Inr st4"
    using calculateAndDisplayStats_returns by blast
  have d4: "skillsData st4 = Some ?d'"
    using calculateAndDisplayStats_frame [OF s4] m3 d2 by (simp add: same_manager_def)
  have "updateSkillLevel st category nm newLevel = Inr (st4, True)"
    by (simp add: updateSkillLevel_def d get_property_own [OF c] a s2 s3 s4)
  with d4 show ?thesis by simp
qed

text \<open>
  C2. When \<open>category\<close> is a key of the dataset and a record of that category has the name
  \<open>nm\<close>, \<open>updateSkillLevel\<close> returns \<open>true\<close> and the first record with that name now has the
  level \<open>clamp newLevel 0 100\<close>; every other record, every other category and the order of
  the categories are as before. The stored level is between 0 and 100: it is 100 for
  \<open>newLevel = 150\<close>, 0 for \<open>newLevel = -10\<close>, and \<open>newLevel\<close> itself when that is in range. So
  if every level was in range before the update, every level is in range after it.
\<close>

theorem updateSkillLevel_clamps:
  assumes d: "skillsData st = Some d"
    and c: "map_of (skills d) category = Some xs"
    and n: "nm \<in> name ` set xs"
  shows "\<exists>st' d' i. updateSkillLevel st category nm newLevel = Inr (st', True) \<and>
     skillsData st' = Some d' \<and>
     i < length xs \<and> name (xs ! i) = nm \<and> (\<forall>j<i. name (xs ! j) \<noteq> nm) \<and>
     map_of (skills d') category = Some (xs[i := (xs ! i)\<lparr>level := clamp newLevel 0 100\<rparr>]) \<and>
     (\<forall>c'. c' \<noteq> category \<longrightarrow> map_of (skills d') c' = map_of (skills d) c') \<and>
     map fst (skills d') = map fst (skills d) \<and>
     0 \<le> clamp newLevel 0 100 \<and> clamp newLevel 0 100 \<le> 100 \<and>
     (0 \<le> newLevel \<and> newLevel \<le> 100 \<longrightarrow> clamp newLevel 0 100 = newLevel) \<and>
     (levels_in_range d \<longrightarrow> levels_in_range d')"
proof -
  have cl: "min 100 (max 0 newLevel) = clamp newLevel 0 100"
    by (simp add: clamp_def)
  from first_match [OF n] obtain i where
    i: "i < length xs" "name (xs ! i) = nm" "\<forall>j<i. name (xs ! j) \<noteq> nm"
    by blast
  let ?xs' = "xs[i := (xs ! i)\<lparr>level := clamp newLevel 0 100\<rparr>]"
  let ?d' = "d\<lparr>skills := put_property category ?xs' (skills d)\<rparr>"
  have a: "assign_level nm (min 100 (max 0 newLevel)) xs = Some ?xs'"
    using assign_level_first [OF i] cl by simp
  from updateSkillLevel_found [OF d c a] obtain st' where
    r: "updateSkillLevel st category nm newLevel = Inr (st', True)" "skillsData st' = Some ?d'"
    by blast
  have m: "map_of (skills ?d') category = Some ?xs'"
    and o: "\<forall>c'. c' \<noteq> category \<longrightarrow> map_of (skills ?d') c' = map_of (skills d) c'"
    and k: "map fst (skills ?d') = map fst (skills d)"
    by (simp_all add: map_of_put_property keys_put_property c)
  have rng: "0 \<le> clamp newLevel 0 100" "clamp newLevel 0 100 \<le> 100"
    "0 \<le> newLevel \<and> newLevel \<le> 100 \<longrightarrow> clamp newLevel 0 100 = newLevel"
    by (simp_all add: clamp_def)
  have inv: "levels_in_range ?d'" if v: "levels_in_range d"
    unfolding levels_in_range_def
  proof
    fix s assume "s \<in> set (records ?d')"
    then have "s \<in> set ?xs' \<or> s \<in> set (records d)"
      using records_put_property [of category ?xs' "skills d"]
      by (auto simp add: records_def Object_values_def)
    moreover have "set ?xs' \<subseteq> insert ((xs ! i)\<lparr>level := clamp newLevel 0 100\<rparr>) (set xs)"
      by (rule set_update_subset_insert)
    moreover have "set xs \<subseteq> set (records d)"
      using map_of_SomeD [OF c] by (auto simp add: records_def Object_values_def)
    ultimately have "s = (xs ! i)\<lparr>level := clamp newLevel 0 100\<rparr> \<or> s \<in> set (records d)"
      by blast
    then show "0 \<le> level s \<and> level s \<le> 100"
      using v rng by (auto simp add: levels_in_range_def)
  qed
  from r m o k rng inv i show ?thesis
    by blast
qed

lemma fallback_tools:
  "map_of (skills getFallbackSkillsData) ''tools'' =
     Some [\<lparr>name = ''Git'', level = 90, icon = [CHR 0xF0, CHR 0x9F, CHR 0x93, CHR 0x9D],
             years = Some 4, description = None\<rparr>,
           \<lparr>name = ''Docker'', level = 75, icon = [CHR 0xF0, CHR 0x9F, CHR 0x90, CHR 0xB3],
             years = Some 2, description = None\<rparr>,
           \<lparr>name = ''AWS'', level = 70,
             icon = [CHR 0xE2, CHR 0x98, CHR 0x81, CHR 0xEF, CHR 0xB8, CHR 0x8F],
             years = Some 2, description = None\<rparr>]"
  by (simp add: getFallbackSkillsData_def)

lemma fallback_levels_in_range: "levels_in_range getFallbackSkillsData"
  by (simp add: levels_in_range_def records_def Object_values_def getFallbackSkillsData_def)

theorem updateSkillLevel_clamps_witness:
  "(\<exists>st' d'. updateSkillLevel fallback_state ''tools'' ''Git'' 150 = Inr (st', True) \<and>
      skillsData st' = Some d' \<and>
      map_option (map level) (map_of (skills d') ''tools'') = Some [100, 75, 70] \<and>
      levels_in_range d') \<and>
   (\<exists>st' d'. updateSkillLevel fallback_state ''tools'' ''Git'' (- 10) = Inr (st', True) \<and>
      skillsData st' = Some d' \<and>
      map_option (map level) (map_of (skills d') ''tools'') = Some [0, 75, 70] \<and>
      levels_in_range d') \<and>
   (\<exists>st' d'. updateSkillLevel fallback_state ''tools'' ''Git'' 50 = Inr (st', True) \<and>
      skillsData st' = Some d' \<and>
      map_option (map level) (map_of (skills d') ''tools'') = Some [50, 75, 70] \<and>
      levels_in_range d')"
proof -
  have d: "skillsData fallback_state = Some getFallbackSkillsData"
    by (simp add: fallback_state_def)
  have n: "''Git'' \<in> name ` set (the (map_of (skills getFallbackSkillsData) ''tools''))"
    by (simp add: fallback_tools)
  have c: "map_of (skills getFallbackSkillsData) ''tools'' =
      Some (the (map_of (skills getFallbackSkillsData) ''tools''))"
    by (simp add: fallback_tools)
  have first: "i = 0"
    if "name (the (map_of (skills getFallbackSkillsData) ''tools'') ! i) = ''Git''"
      and "\<forall>j<i. name (the (map_of (skills getFallbackSkillsData) ''tools'') ! j) \<noteq> ''Git''"
    for i
  proof (rule ccontr)
    assume "i \<noteq> 0"
    with that(2) have "name (the (map_of (skills getFallbackSkillsData) ''tools'') ! 0) \<noteq> ''Git''"
      by simp
    then show False by (simp add: fallback_tools)
  qed
  have "\<exists>st' d'. updateSkillLevel fallback_state ''tools'' ''Git'' v = Inr (st', True) \<and>
      skillsData st' = Some d' \<and>
      map_option (map level) (map_of (skills d') ''tools'') = Some [clamp v 0 100, 75, 70] \<and>
      levels_in_range d'" for v
  proof -
    from updateSkillLevel_clamps [OF d c n, of v] obtain st' d' i where
      r: "updateSkillLevel fallback_state ''tools'' ''Git'' v = Inr (st', True)"
        "skillsData st' = Some d'"
        "name (the (map_of (skills getFallbackSkillsData) ''tools'') ! i) = ''Git''"
        "\<forall>j<i. name (the (map_of (skills getFallbackSkillsData) ''tools'') ! j) \<noteq> ''Git''"
        "map_of (skills d') ''tools'' =
           Some ((the (map_of (skills getFallbackSkillsData) ''tools''))
             [i := (the (map_of (skills getFallbackSkillsData) ''tools'') ! i)
                     \<lparr>level := clamp v 0 100\<rparr>])"
        "levels_in_range getFallbackSkillsData \<longrightarrow> levels_in_range d'"
      by blast
    from first [OF r(3) r(4)] have "i = 0" .
    with r(5) have "map_option (map level) (map_of (skills d') ''tools'') =
        Some [clamp v 0 100, 75, 70]"
      by (simp add: fallback_tools)
    with r(1,2,6) fallback_levels_in_range show ?thesis
      by (intro exI [of _ st'] exI [of _ d']) simp
  qed
  from this [of 150] this [of "- 10"] this [of 50] show ?thesis
    by (simp add: clamp_def)
qed

text \<open>
  C3. \<open>updateSkillLevel\<close> is to return \<open>false\<close>, without throwing and without changing
  anything, when the category is not a key of the dataset. It does not for a category that
  names a property of \<open>Object.prototype\<close>: \<open>constructor\<close> is not a key of the fallback
  dataset, yet \<open>this.skillsData.skills['constructor']\<close> is truthy, the guard lets it pass,
  and the call of its \<open>find\<close> throws a \<open>TypeError\<close>.
\<close>

theorem updateSkillLevel_inherited_key_throws:
  "map_of (skills getFallbackSkillsData) ''constructor'' = None \<and>
   updateSkillLevel fallback_state ''constructor'' ''HTML5'' 50 =
     Inl (TypeError ''this.skillsData.skills[category].find is not a function'')"
  by (simp add: updateSkillLevel_def fallback_state_def getFallbackSkillsData_def
      get_property_def Object_prototype_keys_def)

text \<open>For every other category that is not a key, and for a name that no record of the
  category has, the method does return \<open>false\<close>, and only the console has a new line.\<close>

lemma updateSkillLevel_not_found:
  assumes d: "skillsData st = Some d"
    and nf: "map_of (skills d) category = None \<and> category \<notin> set Object_prototype_keys \<or>
         (\<exists>xs. map_of (skills d) category = Some xs \<and> nm \<notin> name ` set xs)"
  shows "updateSkillLevel st category nm newLevel =
           Inr (st\<lparr>console := console st @
                  [if map_of (skills d) category = None
                   then Err ''Category not found:'' (Text category)
                   else Err ''Skill not found:'' (Text nm)]\<rparr>, False)"
  using nf
proof
  assume "map_of (skills d) category = None \<and> category \<notin> set Object_prototype_keys"
  then show ?thesis
    by (simp add: updateSkillLevel_def d get_property_def)
next
  assume "\<exists>xs. map_of (skills d) category = Some xs \<and> nm \<notin> name ` set xs"
  then obtain xs where xs: "map_of (skills d) category = Some xs" "nm \<notin> name ` set xs"
    by blast
  from xs(2) have "assign_level nm (min 100 (max 0 newLevel)) xs = None"
    by (simp add: assign_level_None)
  with xs(1) show ?thesis
    by (simp add: updateSkillLevel_def d get_property_def)
qed

lemma updateSkillLevel_no_data:
  assumes "skillsData st = None"
  shows "updateSkillLevel st category nm newLevel =
           Inr (st\<lparr>console := console st @ [Err ''Category not found:'' (Text category)]\<rparr>, False)"
  using assms by (simp add: updateSkillLevel_def)

end
